theory Spec2Isabelle
  imports Main "HOL-Library.Word"
begin

section \<open>tcpraw: a packet connection riding on a hijacked TCP flow\<close>

text \<open>
  A shallow embedding of \<^verbatim>\<open>tcp.go\<close>. The connection object is a record, every
  method takes the connection and returns the updated one, and the calls into the
  operating system, the capture library and the serializer are outcomes supplied by an
  environment record, since their code is not part of this package.
\<close>

subsection \<open>Data\<close>

type_synonym byte = "8 word"
type_synonym bytes = "byte list"
type_synonym uint16 = "16 word"
type_synonym uint32 = "32 word"

text \<open>Go's \<^verbatim>\<open>time.Time\<close> as an instant on a discrete clock; \<open>0\<close> is the zero value.\<close>

type_synonym Time = nat

text \<open>
  Go's \<^verbatim>\<open>error\<close> interface: the one error this package creates itself
  (\<^verbatim>\<open>errors.New\<close>) and the errors handed back by the libraries it calls.
\<close>

datatype error = errors_New string | ExternalError string

text \<open>\<^verbatim>\<open>net.TCPAddr\<close> and \<^verbatim>\<open>net.UDPAddr\<close>: an IP (a byte slice) and a port (an int).\<close>

record TCPAddr =
  IP :: bytes
  Port :: int

record UDPAddr =
  UDP_IP :: bytes
  UDP_Port :: int

text \<open>The interface \<^verbatim>\<open>net.Addr\<close>, with its nil value.\<close>

datatype net_Addr = NilAddr | TCPAddrOf TCPAddr | UDPAddrOf UDPAddr | IPAddrOf bytes

text \<open>
  The two sockets of the standard library, as far as this package touches them: whether
  they have been closed, the deadlines stored on them, and the endpoints of the TCP
  socket.
\<close>

record net_IPConn =
  ip_closed :: bool
  readDeadline :: Time
  writeDeadline :: Time

record net_TCPConn =
  laddr :: TCPAddr
  raddr :: TCPAddr
  tcp_closed :: bool

text \<open>The capture handle as \<^verbatim>\<open>pcap.OpenLive\<close> and \<^verbatim>\<open>SetBPFFilter\<close> configure it.\<close>

record Handle =
  device :: string
  snaplen :: int
  promisc :: bool
  timeout_ns :: int
  bpf :: string

text \<open>
  The gopacket layers, with the fields this package reads or writes. A field the
  package leaves out of a composite literal has Go's zero value.
\<close>

record Ethernet =
  SrcMAC :: bytes
  DstMAC :: bytes
  EthernetType :: uint16

record Loopback =
  Family :: byte

datatype link_layer = EthernetLayerOf Ethernet | LoopbackLayerOf Loopback

record IPv4 =
  SrcIP :: bytes
  DstIP :: bytes
  Protocol :: byte
  Version :: byte
  Id :: uint16
  Flags :: byte
  TTL :: byte

record TCP =
  SrcPort :: uint16
  DstPort :: uint16
  Window :: uint16
  Ack :: uint32
  Seq :: uint32
  PSH :: bool
  ACK :: bool
  Payload :: bytes

text \<open>
  A decoded frame: \<^verbatim>\<open>packet.Layer(t)\<close> is the layer of type \<open>t\<close> or nil, and
  \<^verbatim>\<open>packet.TransportLayer()\<close> is the TCP layer or nil.
\<close>

record packet =
  Layer_Ethernet :: "Ethernet option"
  Layer_Loopback :: "Loopback option"
  TransportLayer :: "TCP option"

text \<open>
  The struct \<^verbatim>\<open>TCPConn\<close>. The fields \<^verbatim>\<open>fd\<close> and \<^verbatim>\<open>pktsrc\<close> are never read or
  written and are left out. The channel \<^verbatim>\<open>chPacket\<close> is the list of payloads it
  buffers, oldest first. The last two fields are the state of the goroutine started by
  \<^verbatim>\<open>receiver\<close>: whether its \<^verbatim>\<open>sync.Once\<close> has fired, and the payload of a channel
  send it is suspended on because the buffer is full.
\<close>

record TCPConn =
  ipconn :: net_IPConn
  tcpconn :: net_TCPConn
  handle :: Handle
  chPacket :: "bytes list"
  linkLayer :: "link_layer option"
  seqnum :: uint32
  acknum :: uint32
  once_done :: bool
  sending :: "bytes option"

text \<open>Capacity of the channel made by \<^verbatim>\<open>make(chan []byte, 128)\<close>.\<close>

definition chPacket_cap :: nat where
  "chPacket_cap = 128"

subsection \<open>The sockets\<close>

definition use_of_closed :: error where
  "use_of_closed = ExternalError ''use of closed network connection''"

definition IPConn_Close :: "net_IPConn \<Rightarrow> error option \<times> net_IPConn" where
  "IPConn_Close s =
     (if ip_closed s then (Some use_of_closed, s) else (None, s\<lparr>ip_closed := True\<rparr>))"

definition TCPConn_Close :: "net_TCPConn \<Rightarrow> error option \<times> net_TCPConn" where
  "TCPConn_Close s =
     (if tcp_closed s then (Some use_of_closed, s) else (None, s\<lparr>tcp_closed := True\<rparr>))"

definition IPConn_SetReadDeadline :: "net_IPConn \<Rightarrow> Time \<Rightarrow> error option \<times> net_IPConn" where
  "IPConn_SetReadDeadline s t =
     (if ip_closed s then (Some use_of_closed, s) else (None, s\<lparr>readDeadline := t\<rparr>))"

definition IPConn_SetWriteDeadline :: "net_IPConn \<Rightarrow> Time \<Rightarrow> error option \<times> net_IPConn" where
  "IPConn_SetWriteDeadline s t =
     (if ip_closed s then (Some use_of_closed, s) else (None, s\<lparr>writeDeadline := t\<rparr>))"

definition IPConn_SetDeadline :: "net_IPConn \<Rightarrow> Time \<Rightarrow> error option \<times> net_IPConn" where
  "IPConn_SetDeadline s t =
     (if ip_closed s then (Some use_of_closed, s)
      else (None, s\<lparr>readDeadline := t, writeDeadline := t\<rparr>))"

text \<open>\<^verbatim>\<open>LocalAddr\<close> and \<^verbatim>\<open>RemoteAddr\<close> of the TCP socket keep answering after a close.\<close>

definition TCPConn_LocalAddr :: "net_TCPConn \<Rightarrow> net_Addr" where
  "TCPConn_LocalAddr s = TCPAddrOf (laddr s)"

definition TCPConn_RemoteAddr :: "net_TCPConn \<Rightarrow> net_Addr" where
  "TCPConn_RemoteAddr s = TCPAddrOf (raddr s)"

subsection \<open>Dial: the interface lookup\<close>

text \<open>\<^verbatim>\<open>net.IP.Equal\<close>: an IPv4 address equals its IPv4-in-IPv6 form.\<close>

definition v4InV6Prefix :: bytes where
  "v4InV6Prefix = [0, 0, 0, 0, 0, 0, 0, 0, 0, 0, 255, 255]"

definition IP_Equal :: "bytes \<Rightarrow> bytes \<Rightarrow> bool" where
  "IP_Equal ip x =
     (if length ip = length x then ip = x
      else if length ip = 4 \<and> length x = 16 then take 12 x = v4InV6Prefix \<and> ip = drop 12 x
      else if length ip = 16 \<and> length x = 4 then take 12 ip = v4InV6Prefix \<and> drop 12 ip = x
      else False)"

text \<open>\<^verbatim>\<open>pcap.Interface\<close> and \<^verbatim>\<open>pcap.InterfaceAddress\<close>.\<close>

record InterfaceAddress =
  Addr_IP :: bytes
  Netmask :: bytes

record Interface =
  Name :: string
  Addresses :: "InterfaceAddress list"

text \<open>
  The two nested \<^verbatim>\<open>range\<close> loops of \<^verbatim>\<open>Dial\<close>. Neither has a \<^verbatim>\<open>break\<close>: every
  match assigns \<^verbatim>\<open>ifaceName\<close> again.
\<close>

primrec range_addrs :: "bytes \<Rightarrow> string \<Rightarrow> InterfaceAddress list \<Rightarrow> string \<Rightarrow> string" where
  "range_addrs local nm [] ifaceName = ifaceName"
| "range_addrs local nm (addr # addrs) ifaceName =
     range_addrs local nm addrs (if IP_Equal (Addr_IP addr) local then nm else ifaceName)"

primrec range_ifaces :: "bytes \<Rightarrow> Interface list \<Rightarrow> string \<Rightarrow> string" where
  "range_ifaces local [] ifaceName = ifaceName"
| "range_ifaces local (iface # ifaces) ifaceName =
     range_ifaces local ifaces (range_addrs local (Name iface) (Addresses iface) ifaceName)"

text \<open>
  The outcomes of the calls \<^verbatim>\<open>Dial\<close> makes outside this package, in the order it makes
  them. \<^verbatim>\<open>net_Dial_udp4\<close> gives the local address of the dummy socket.
\<close>

record dial_env =
  ResolveTCPAddr :: "string \<Rightarrow> string \<Rightarrow> error + TCPAddr"
  net_Dial_udp4 :: "string \<Rightarrow> error + UDPAddr"
  FindAllDevs :: "error + Interface list"
  OpenLive :: "string \<Rightarrow> int \<Rightarrow> bool \<Rightarrow> int \<Rightarrow> error + Handle"
  UDPAddr_String :: "UDPAddr \<Rightarrow> string"
  IP_String :: "bytes \<Rightarrow> string"
  Sprint :: "int \<Rightarrow> string"
  SetBPFFilter :: "Handle \<Rightarrow> string \<Rightarrow> error + Handle"
  DialTCP :: "TCPAddr \<Rightarrow> TCPAddr \<Rightarrow> error + net_TCPConn"
  net_Dial_ip4tcp :: "string \<Rightarrow> error + net_IPConn"

text \<open>
  \<^verbatim>\<open>Dial\<close>. The result is the connection at the moment the receiver goroutine starts;
  the call itself returns once that goroutine has run its \<^verbatim>\<open>once.Do\<close> on the first
  captured frame, which is the first \<open>receiver_body\<close> step below.
\<close>

definition Dial :: "dial_env \<Rightarrow> string \<Rightarrow> string \<Rightarrow> error + TCPConn" where
  "Dial env network address =
     (case ResolveTCPAddr env network address of
        Inl err \<Rightarrow> Inl err
      | Inr ra \<Rightarrow>
     (case net_Dial_udp4 env address of
        Inl err \<Rightarrow> Inl err
      | Inr dummy \<Rightarrow>
     (case FindAllDevs env of
        Inl err \<Rightarrow> Inl err
      | Inr ifaces \<Rightarrow>
     (let ifaceName = range_ifaces (UDP_IP dummy) ifaces [] in
      if ifaceName = [] then Inl (errors_New ''cannot find correct interface'')
      else
     (case OpenLive env ifaceName 65536 True 1000000 of
        Inl err \<Rightarrow> Inl err
      | Inr h \<Rightarrow>
     (case ResolveTCPAddr env ''tcp'' (UDPAddr_String env dummy) of
        Inl err \<Rightarrow> Inl err
      | Inr la \<Rightarrow>
     (let filter = ''tcp and dst host '' @ IP_String env (IP la) @
                   '' and dst port '' @ Sprint env (Port la) @
                   '' and src host '' @ IP_String env (IP ra) @
                   '' and src port '' @ Sprint env (Port ra) in
     (case SetBPFFilter env h filter of
        Inl err \<Rightarrow> Inl err
      | Inr h' \<Rightarrow>
     (case DialTCP env la ra of
        Inl err \<Rightarrow> Inl err
      | Inr tc \<Rightarrow>
     (case net_Dial_ip4tcp env (IP_String env (IP ra)) of
        Inl err \<Rightarrow> Inl err
      | Inr ic \<Rightarrow>
          Inr \<lparr>ipconn = ic, tcpconn = tc, handle = h', chPacket = [], linkLayer = None,
               seqnum = 0, acknum = 0, once_done = False, sending = None\<rparr>))))))))))"

subsection \<open>The receiver goroutine\<close>

text \<open>The function passed to \<^verbatim>\<open>once.Do\<close>.\<close>

definition once_body :: "packet \<Rightarrow> TCPConn \<Rightarrow> TCPConn" where
  "once_body pkt conn =
     (case Layer_Ethernet pkt of
        Some ethLayer \<Rightarrow>
          conn\<lparr>linkLayer := Some (EthernetLayerOf
            \<lparr>SrcMAC = DstMAC ethLayer, DstMAC = SrcMAC ethLayer,
             EthernetType = EthernetType ethLayer\<rparr>)\<rparr>
      | None \<Rightarrow>
          (case Layer_Loopback pkt of
             Some loopLayer \<Rightarrow> conn\<lparr>linkLayer := Some (LoopbackLayerOf \<lparr>Family = Family loopLayer\<rparr>)\<rparr>
           | None \<Rightarrow> conn))"

definition once_Do :: "packet \<Rightarrow> TCPConn \<Rightarrow> TCPConn" where
  "once_Do pkt conn =
     (if once_done conn then conn else (once_body pkt conn)\<lparr>once_done := True\<rparr>)"

text \<open>
  A send on the buffered channel: it appends when there is room, and suspends the
  goroutine with the value in hand when the buffer is full.
\<close>

definition chan_send :: "bytes \<Rightarrow> TCPConn \<Rightarrow> TCPConn" where
  "chan_send v conn =
     (if length (chPacket conn) < chPacket_cap then conn\<lparr>chPacket := chPacket conn @ [v]\<rparr>
      else conn\<lparr>sending := Some v\<rparr>)"

text \<open>
  One iteration of the loop over \<^verbatim>\<open>source.Packets()\<close>. The type assertion on the
  transport layer has no comma-ok form, so a frame without a TCP layer panics.
\<close>

datatype panic = InterfaceConversion

definition receiver_body :: "packet \<Rightarrow> TCPConn \<Rightarrow> panic + TCPConn" where
  "receiver_body pkt conn =
     (case TransportLayer pkt of
        None \<Rightarrow> Inl InterfaceConversion
      | Some transport \<Rightarrow>
          let conn1 = conn\<lparr>acknum := Seq transport\<rparr>;
              conn2 = conn1\<lparr>seqnum := Ack transport\<rparr>;
              conn3 = once_Do pkt conn2
          in Inr (if PSH transport then chan_send (Payload transport) conn3 else conn3))"

subsection \<open>ReadFrom\<close>

text \<open>
  A receive on the channel: \<open>None\<close> when the buffer is empty (the caller stays
  suspended); otherwise the oldest payload, and a suspended sender's value moves into
  the freed slot.
\<close>

definition chan_recv :: "TCPConn \<Rightarrow> (bytes \<times> TCPConn) option" where
  "chan_recv conn =
     (case chPacket conn of
        [] \<Rightarrow> None
      | pkt # rest \<Rightarrow>
          Some (pkt, (case sending conn of
                        None \<Rightarrow> conn\<lparr>chPacket := rest\<rparr>
                      | Some v \<Rightarrow> conn\<lparr>chPacket := rest @ [v], sending := None\<rparr>)))"

text \<open>The builtin \<^verbatim>\<open>copy(dst, src)\<close>: the count and the destination afterwards.\<close>

definition copy :: "bytes \<Rightarrow> bytes \<Rightarrow> nat \<times> bytes" where
  "copy dst src = (let n = min (length dst) (length src) in (n, take n src @ drop n dst))"

text \<open>
  The result of \<^verbatim>\<open>ReadFrom\<close>: the three return values, and the caller's buffer after
  the call.
\<close>

record read_result =
  rd_n :: int
  rd_addr :: net_Addr
  rd_err :: "error option"
  rd_buf :: bytes

definition ReadFrom :: "TCPConn \<Rightarrow> bytes \<Rightarrow> (read_result \<times> TCPConn) option" where
  "ReadFrom conn p =
     (case chan_recv conn of
        None \<Rightarrow> None
      | Some (pkt, conn') \<Rightarrow>
          let (n, p') = copy p pkt
          in Some (\<lparr>rd_n = int n, rd_addr = TCPConn_RemoteAddr (tcpconn conn'),
                    rd_err = None, rd_buf = p'\<rparr>, conn'))"

subsection \<open>WriteTo\<close>

record SerializeOptions =
  FixLengths :: bool
  ComputeChecksums :: bool

text \<open>
  The outcomes of the two library calls of \<^verbatim>\<open>WriteTo\<close>: \<^verbatim>\<open>gopacket.SerializeLayers\<close>
  gives its error and the bytes left in the buffer, \<^verbatim>\<open>WritePacketData\<close> its error.
  The serializer receives the options, the link-layer template (nil when the first frame
  gave none), the two headers and the payload. These are the outcomes of calls that
  return; a call that panics inside the library is not among them.
\<close>

record write_env =
  SerializeLayers ::
    "SerializeOptions \<Rightarrow> link_layer option \<Rightarrow> IPv4 \<Rightarrow> TCP \<Rightarrow> bytes \<Rightarrow> error option \<times> bytes"
  WritePacketData :: "Handle \<Rightarrow> bytes \<Rightarrow> error option"

definition IPProtocolTCP :: byte where
  "IPProtocolTCP = 6"

definition IPv4DontFragment :: byte where
  "IPv4DontFragment = 2"

text \<open>
  The two header literals \<^verbatim>\<open>network\<close> and \<^verbatim>\<open>tcp\<close>. The payload is not a
  field of the TCP literal: it goes to the serializer as a layer of its own.
\<close>

definition WriteTo_network :: "TCPConn \<Rightarrow> IPv4" where
  "WriteTo_network conn =
     \<lparr>SrcIP = IP (laddr (tcpconn conn)), DstIP = IP (raddr (tcpconn conn)),
      Protocol = IPProtocolTCP, Version = 4, Id = 1234, Flags = IPv4DontFragment,
      TTL = 64\<rparr>"

definition WriteTo_tcp :: "TCPConn \<Rightarrow> TCP" where
  "WriteTo_tcp conn =
     \<lparr>SrcPort = word_of_int (Port (laddr (tcpconn conn))),
      DstPort = word_of_int (Port (raddr (tcpconn conn))),
      Window = 12580, Ack = acknum conn, Seq = seqnum conn, PSH = True, ACK = True,
      Payload = []\<rparr>"

text \<open>
  The result of \<^verbatim>\<open>WriteTo\<close>: the two return values, and the bytes it handed to
  \<^verbatim>\<open>WritePacketData\<close>.
\<close>

record write_result =
  wr_n :: int
  wr_err :: "error option"
  wr_frame :: bytes

definition WriteTo :: "write_env \<Rightarrow> TCPConn \<Rightarrow> bytes \<Rightarrow> net_Addr \<Rightarrow> write_result \<times> TCPConn" where
  "WriteTo env conn p addr =
     (let opts = \<lparr>FixLengths = True, ComputeChecksums = True\<rparr>;
          network = WriteTo_network conn;
          tcp = WriteTo_tcp conn;
          (_, buf) = SerializeLayers env opts (linkLayer conn) network tcp p
      in case WritePacketData env (handle conn) buf of
           Some err \<Rightarrow> (\<lparr>wr_n = 0, wr_err = Some err, wr_frame = buf\<rparr>, conn)
         | None \<Rightarrow>
             (\<lparr>wr_n = int (length p), wr_err = None, wr_frame = buf\<rparr>,
              conn\<lparr>seqnum := seqnum conn + of_nat (length p)\<rparr>))"

subsection \<open>Close, LocalAddr and the deadlines\<close>

definition Close :: "TCPConn \<Rightarrow> error option \<times> TCPConn" where
  "Close conn =
     (let (_, tc) = TCPConn_Close (tcpconn conn);
          (err, ic) = IPConn_Close (ipconn conn)
      in (err, conn\<lparr>tcpconn := tc, ipconn := ic\<rparr>))"

definition LocalAddr :: "TCPConn \<Rightarrow> net_Addr" where
  "LocalAddr conn = TCPConn_LocalAddr (tcpconn conn)"

definition SetDeadline :: "TCPConn \<Rightarrow> Time \<Rightarrow> error option \<times> TCPConn" where
  "SetDeadline conn t =
     (let (err, ic) = IPConn_SetDeadline (ipconn conn) t in (err, conn\<lparr>ipconn := ic\<rparr>))"

definition SetReadDeadline :: "TCPConn \<Rightarrow> Time \<Rightarrow> error option \<times> TCPConn" where
  "SetReadDeadline conn t =
     (let (err, ic) = IPConn_SetReadDeadline (ipconn conn) t in (err, conn\<lparr>ipconn := ic\<rparr>))"

definition SetWriteDeadline :: "TCPConn \<Rightarrow> Time \<Rightarrow> error option \<times> TCPConn" where
  "SetWriteDeadline conn t =
     (let (err, ic) = IPConn_SetWriteDeadline (ipconn conn) t in (err, conn\<lparr>ipconn := ic\<rparr>))"

subsection \<open>Interleavings\<close>

text \<open>
  The goroutine and the caller's calls interleave. An event is one loop iteration of
  the goroutine on the next captured frame, or one completed call of a method. A frame
  is taken only while the goroutine is not suspended on a send, a \<^verbatim>\<open>ReadFrom\<close>
  completes only when a payload is buffered, and a panic ends the program: in each of
  these cases the event cannot happen, and \<open>step\<close> is \<open>None\<close>. Next to the connection
  the state keeps the results of the completed \<^verbatim>\<open>ReadFrom\<close> calls, oldest first.
\<close>

datatype event =
    Capture packet
  | Read bytes
  | Write write_env bytes net_Addr
  | CloseCall
  | Deadline Time
  | ReadDeadline Time
  | WriteDeadline Time

fun step :: "event \<Rightarrow> TCPConn \<times> read_result list \<Rightarrow> (TCPConn \<times> read_result list) option" where
  "step (Capture pkt) (conn, log) =
     (case sending conn of
        Some v \<Rightarrow> None
      | None \<Rightarrow> (case receiver_body pkt conn of Inl e \<Rightarrow> None | Inr conn' \<Rightarrow> Some (conn', log)))"
| "step (Read p) (conn, log) =
     (case ReadFrom conn p of None \<Rightarrow> None | Some (r, conn') \<Rightarrow> Some (conn', log @ [r]))"
| "step (Write env p addr) (conn, log) = Some (snd (WriteTo env conn p addr), log)"
| "step CloseCall (conn, log) = Some (snd (Close conn), log)"
| "step (Deadline t) (conn, log) = Some (snd (SetDeadline conn t), log)"
| "step (ReadDeadline t) (conn, log) = Some (snd (SetReadDeadline conn t), log)"
| "step (WriteDeadline t) (conn, log) = Some (snd (SetWriteDeadline conn t), log)"

fun run :: "event list \<Rightarrow> TCPConn \<times> read_result list \<Rightarrow> (TCPConn \<times> read_result list) option" where
  "run [] s = Some s"
| "run (ev # evs) s = (case step ev s of None \<Rightarrow> None | Some s' \<Rightarrow> run evs s')"




text \<open>Everything the channel holds, the value of a suspended send last.\<close>

definition in_channel :: "TCPConn \<Rightarrow> bytes list" where
  "in_channel conn = chPacket conn @ (case sending conn of None \<Rightarrow> [] | Some v \<Rightarrow> [v])"

subsection \<open>A connection and frames to run the model on\<close>

definition demo_conn :: TCPConn where
  "demo_conn =
     \<lparr>ipconn = \<lparr>ip_closed = False, readDeadline = 0, writeDeadline = 0\<rparr>,
      tcpconn = \<lparr>laddr = \<lparr>IP = [10, 0, 0, 2], Port = 40000\<rparr>,
                 raddr = \<lparr>IP = [10, 0, 0, 9], Port = 443\<rparr>, tcp_closed = False\<rparr>,
      handle = \<lparr>device = ''eth0'', snaplen = 65536, promisc = True, timeout_ns = 1000000,
                bpf = ''tcp''\<rparr>,
      chPacket = [], linkLayer = None, seqnum = 1000, acknum = 5000,
      once_done = False, sending = None\<rparr>"

definition demo_eth :: Ethernet where
  "demo_eth = \<lparr>SrcMAC = [1, 1, 1, 1, 1, 1], DstMAC = [2, 2, 2, 2, 2, 2], EthernetType = 2048\<rparr>"

definition demo_segment :: "uint32 \<Rightarrow> uint32 \<Rightarrow> bool \<Rightarrow> bytes \<Rightarrow> TCP" where
  "demo_segment s a psh data =
     \<lparr>SrcPort = 443, DstPort = 40000, Window = 512, Ack = a, Seq = s, PSH = psh, ACK = True,
      Payload = data\<rparr>"

definition demo_frame :: "uint32 \<Rightarrow> uint32 \<Rightarrow> bool \<Rightarrow> bytes \<Rightarrow> packet" where
  "demo_frame s a psh data =
     \<lparr>Layer_Ethernet = Some demo_eth, Layer_Loopback = None,
      TransportLayer = Some (demo_segment s a psh data)\<rparr>"

text \<open>
  Three environments for \<^verbatim>\<open>WriteTo\<close>: both library calls succeed; the serializer
  returns an error, leaving the headers it had written so far in the buffer, and the
  handle accepts those bytes; the handle refuses.
\<close>

definition demo_serialize ::
  "SerializeOptions \<Rightarrow> link_layer option \<Rightarrow> IPv4 \<Rightarrow> TCP \<Rightarrow> bytes \<Rightarrow> error option \<times> bytes" where
  "demo_serialize opts link network tcp p = (None, SrcIP network @ DstIP network @ p)"

definition env_ok :: write_env where
  "env_ok = \<lparr>SerializeLayers = demo_serialize, WritePacketData = (\<lambda>h buf. None)\<rparr>"

definition env_serialize_fails :: write_env where
  "env_serialize_fails =
     \<lparr>SerializeLayers = (\<lambda>opts link network tcp p.
         (Some (ExternalError ''invalid ethernet length''), SrcIP network @ DstIP network @ p)),
      WritePacketData = (\<lambda>h buf. None)\<rparr>"

definition env_inject_fails :: write_env where
  "env_inject_fails =
     \<lparr>SerializeLayers = demo_serialize,
      WritePacketData = (\<lambda>h buf. Some (ExternalError ''send: Message too long''))\<rparr>"

text \<open>
  The connection once the first frame has given it an Ethernet template, the same with
  one payload waiting in the channel, and one whose first frame was an 802.3 frame
  (gopacket decodes its type as \<^verbatim>\<open>EthernetTypeLLC\<close>, which is 0).
\<close>

definition demo_linked :: TCPConn where
  "demo_linked =
     demo_conn\<lparr>linkLayer := Some (EthernetLayerOf
                  \<lparr>SrcMAC = [2, 2, 2, 2, 2, 2], DstMAC = [1, 1, 1, 1, 1, 1], EthernetType = 2048\<rparr>),
               once_done := True\<rparr>"

definition demo_queued :: TCPConn where
  "demo_queued = demo_linked\<lparr>chPacket := [[1, 2, 3, 4, 5]]\<rparr>"

definition demo_llc :: TCPConn where
  "demo_llc =
     demo_conn\<lparr>linkLayer := Some (EthernetLayerOf
                  \<lparr>SrcMAC = [2, 2, 2, 2, 2, 2], DstMAC = [1, 1, 1, 1, 1, 1], EthernetType = 0\<rparr>),
               once_done := True\<rparr>"

definition demo_loop_frame :: packet where
  "demo_loop_frame =
     \<lparr>Layer_Ethernet = None, Layer_Loopback = Some \<lparr>Family = 2\<rparr>,
      TransportLayer = Some (demo_segment 3 1 False [])\<rparr>"






section \<open>Properties\<close>

lemmas demo_defs = demo_conn_def demo_linked_def demo_queued_def demo_llc_def demo_frame_def
  demo_segment_def demo_eth_def demo_loop_frame_def

lemmas recv_defs = receiver_body_def once_Do_def once_body_def chan_send_def chPacket_cap_def
  Let_def

lemmas read_defs = ReadFrom_def chan_recv_def copy_def TCPConn_RemoteAddr_def

lemma run_append:
  "run (evs @ evs') s = (case run evs s of None \<Rightarrow> None | Some s' \<Rightarrow> run evs' s')"
  by (induction evs arbitrary: s) (auto split: option.splits)

text \<open>The connection \<^verbatim>\<open>Dial\<close> makes starts with no template and an empty channel.\<close>

lemma Dial_fresh:
  assumes "Dial env network address = Inr conn"
  shows "\<not> once_done conn \<and> linkLayer conn = None \<and> chPacket conn = [] \<and> sending conn = None"
  using assms
  by (auto simp: Dial_def Let_def split: sum.splits if_splits)

subsection \<open>WriteTo\<close>

text \<open>
  Claim C1. For every payload \<open>p\<close>, a call of \<^verbatim>\<open>WriteTo\<close> that returns no error
  returns \<open>len(p)\<close> as its count; afterwards \<^verbatim>\<open>seqnum\<close> is its value before the
  call plus \<open>len(p)\<close> modulo \<open>2^32\<close>, and \<^verbatim>\<open>acknum\<close> is what it was.
\<close>

theorem WriteTo_success:
  assumes "WriteTo env conn p addr = (r, conn')" and "wr_err r = None"
  shows "wr_n r = int (length p)
       \<and> unat (seqnum conn') = (unat (seqnum conn) + length p) mod 2 ^ 32
       \<and> acknum conn' = acknum conn"
proof -
  obtain e buf where ser:
    "SerializeLayers env \<lparr>FixLengths = True, ComputeChecksums = True\<rparr> (linkLayer conn)
       (WriteTo_network conn) (WriteTo_tcp conn) p = (e, buf)"
    by (cases "SerializeLayers env \<lparr>FixLengths = True, ComputeChecksums = True\<rparr> (linkLayer conn)
       (WriteTo_network conn) (WriteTo_tcp conn) p") auto
  show ?thesis
  proof (cases "WritePacketData env (handle conn) buf")
    case None
    with assms ser have r: "wr_n r = int (length p)"
      and c: "conn' = conn\<lparr>seqnum := seqnum conn + of_nat (length p)\<rparr>"
      by (auto simp: WriteTo_def)
    have "unat (seqnum conn + of_nat (length p)) = (unat (seqnum conn) + length p) mod 2 ^ 32"
      by (simp add: unat_word_ariths unat_of_nat mod_simps)
    with r c show ?thesis by simp
  next
    case (Some err)
    with assms ser show ?thesis by (auto simp: WriteTo_def)
  qed
qed

theorem WriteTo_success_witness:
  "wr_err (fst (WriteTo env_ok (demo_linked\<lparr>seqnum := 4294967295\<rparr>) [7, 8, 9] NilAddr)) = None
   \<and> wr_n (fst (WriteTo env_ok (demo_linked\<lparr>seqnum := 4294967295\<rparr>) [7, 8, 9] NilAddr)) = 3
   \<and> unat (seqnum (snd (WriteTo env_ok (demo_linked\<lparr>seqnum := 4294967295\<rparr>) [7, 8, 9] NilAddr))) = 2
   \<and> acknum (snd (WriteTo env_ok (demo_linked\<lparr>seqnum := 4294967295\<rparr>) [7, 8, 9] NilAddr)) = 5000"
proof -
  have e: "wr_err (fst (WriteTo env_ok (demo_linked\<lparr>seqnum := 4294967295\<rparr>) [7, 8, 9] NilAddr)) = None"
    by (simp add: WriteTo_def env_ok_def demo_serialize_def Let_def)
  have a: "acknum (demo_linked\<lparr>seqnum := 4294967295\<rparr>) = 5000"
    and s: "unat (seqnum (demo_linked\<lparr>seqnum := 4294967295\<rparr>)) = 4294967295"
    by (simp_all add: demo_linked_def demo_conn_def)
  from WriteTo_success [OF surjective_pairing e] a s e show ?thesis by simp
qed

text \<open>When the capture handle refuses the frame, the call returns 0 and that error, and the
  connection is what it was.\<close>

lemma WriteTo_inject_error:
  assumes "WritePacketData env (handle conn)
             (snd (SerializeLayers env \<lparr>FixLengths = True, ComputeChecksums = True\<rparr> (linkLayer conn)
                (WriteTo_network conn) (WriteTo_tcp conn) p)) = Some err"
  shows "wr_n (fst (WriteTo env conn p addr)) = 0 \<and> wr_err (fst (WriteTo env conn p addr)) = Some err
       \<and> snd (WriteTo env conn p addr) = conn"
  using assms
  by (cases "SerializeLayers env \<lparr>FixLengths = True, ComputeChecksums = True\<rparr> (linkLayer conn)
                (WriteTo_network conn) (WriteTo_tcp conn) p")
    (simp add: WriteTo_def Let_def)

text \<open>
  Claim C5 asks that a failure of serialization, like a failure of injection, makes
  \<^verbatim>\<open>WriteTo\<close> return 0 and the error and leave \<^verbatim>\<open>seqnum\<close> alone. The value
  \<^verbatim>\<open>SerializeLayers\<close> returns is dropped: with a template whose type is
  \<^verbatim>\<open>EthernetTypeLLC\<close> and a payload of 1500 bytes, in an environment where the
  serializer returns an error and the handle accepts the buffer, the call returns 1500
  and no error, and \<^verbatim>\<open>seqnum\<close> goes from 1000 to 2500. When it is the handle that
  refuses, the same call returns 0 and the error, and \<^verbatim>\<open>seqnum\<close> stays at 1000.
\<close>

theorem WriteTo_drops_serialize_error:
  "fst (SerializeLayers env_serialize_fails \<lparr>FixLengths = True, ComputeChecksums = True\<rparr>
          (linkLayer demo_llc) (WriteTo_network demo_llc) (WriteTo_tcp demo_llc)
          (replicate 1500 0)) = Some (ExternalError ''invalid ethernet length'')
   \<and> wr_err (fst (WriteTo env_serialize_fails demo_llc (replicate 1500 0) NilAddr)) = None
   \<and> wr_n (fst (WriteTo env_serialize_fails demo_llc (replicate 1500 0) NilAddr)) = 1500
   \<and> seqnum demo_llc = 1000
   \<and> seqnum (snd (WriteTo env_serialize_fails demo_llc (replicate 1500 0) NilAddr)) = 2500
   \<and> wr_err (fst (WriteTo env_inject_fails demo_llc (replicate 1500 0) NilAddr))
       = Some (ExternalError ''send: Message too long'')
   \<and> wr_n (fst (WriteTo env_inject_fails demo_llc (replicate 1500 0) NilAddr)) = 0
   \<and> seqnum (snd (WriteTo env_inject_fails demo_llc (replicate 1500 0) NilAddr)) = 1000"
  by (simp add: WriteTo_def env_serialize_fails_def env_inject_fails_def demo_serialize_def
      demo_llc_def demo_conn_def Let_def)

text \<open>
  Claim C10. The argument \<^verbatim>\<open>addr\<close> of \<^verbatim>\<open>WriteTo\<close> has no effect: with the same
  payload, connection and environment, two addresses give the same return values, the
  same bytes handed to the capture handle and the same connection afterwards; the
  destination IP and port of the frame are those of the remote endpoint of the
  connection.
\<close>

theorem WriteTo_ignores_addr:
  "WriteTo env conn p a1 = WriteTo env conn p a2
   \<and> DstIP (WriteTo_network conn) = IP (raddr (tcpconn conn))
   \<and> DstPort (WriteTo_tcp conn) = word_of_int (Port (raddr (tcpconn conn)))"
  by (simp add: WriteTo_def WriteTo_network_def WriteTo_tcp_def)

subsection \<open>The counters\<close>

lemma once_Do_counters:
  "seqnum (once_Do pkt conn) = seqnum conn" "acknum (once_Do pkt conn) = acknum conn"
  by (simp_all add: once_Do_def once_body_def split: option.splits)

lemma chan_send_counters:
  "seqnum (chan_send v conn) = seqnum conn" "acknum (chan_send v conn) = acknum conn"
  by (simp_all add: chan_send_def)

lemma receiver_body_counters:
  assumes "TransportLayer pkt = Some transport"
  shows "\<exists>conn'. receiver_body pkt conn = Inr conn'
            \<and> acknum conn' = Seq transport \<and> seqnum conn' = Ack transport"
  using assms
  by (simp add: receiver_body_def Let_def once_Do_counters chan_send_counters)

text \<open>
  Claim C2. For every captured segment, the loop iteration stores the segment's
  sequence number in \<^verbatim>\<open>acknum\<close> and its acknowledgment number in \<^verbatim>\<open>seqnum\<close>,
  whatever the two counters held before; so after any interleaving that ends with the
  capture of a segment, the counters are those of that segment.
\<close>

theorem receiver_overwrites_counters:
  assumes "TransportLayer pkt = Some transport"
  shows "(\<exists>conn'. receiver_body pkt conn = Inr conn'
            \<and> acknum conn' = Seq transport \<and> seqnum conn' = Ack transport)
       \<and> (\<forall>evs s conn' log. run (evs @ [Capture pkt]) s = Some (conn', log)
            \<longrightarrow> acknum conn' = Seq transport \<and> seqnum conn' = Ack transport)"
proof -
  have one: "\<exists>conn'. receiver_body pkt conn = Inr conn'
            \<and> acknum conn' = Seq transport \<and> seqnum conn' = Ack transport"
    using assms by (rule receiver_body_counters)
  have many: "acknum conn' = Seq transport \<and> seqnum conn' = Ack transport"
    if r: "run (evs @ [Capture pkt]) s = Some (conn', log)" for evs s conn' log
  proof -
    from r obtain c l where "run evs s = Some (c, l)"
      and st: "step (Capture pkt) (c, l) = Some (conn', log)"
      by (auto simp: run_append split: option.splits)
    from st have "receiver_body pkt c = Inr conn'"
      by (auto split: option.splits sum.splits)
    with receiver_body_counters [OF assms, of c] show ?thesis by auto
  qed
  from one many show ?thesis by blast
qed

theorem receiver_overwrites_counters_witness:
  "TransportLayer (demo_frame 77 88 True [1, 2]) = Some (demo_segment 77 88 True [1, 2])
   \<and> (\<exists>conn' log.
         run ([Capture (demo_frame 10 20 False [])] @ [Capture (demo_frame 77 88 True [1, 2])])
           (demo_conn, []) = Some (conn', log)
         \<and> acknum conn' = 77 \<and> seqnum conn' = 88)"
proof -
  have t: "TransportLayer (demo_frame 77 88 True [1, 2]) = Some (demo_segment 77 88 True [1, 2])"
    by (simp add: demo_frame_def)
  have "\<exists>conn' log.
         run ([Capture (demo_frame 10 20 False [])] @ [Capture (demo_frame 77 88 True [1, 2])])
           (demo_conn, []) = Some (conn', log)"
    by (simp add: demo_defs recv_defs)
  then obtain conn' log where r:
    "run ([Capture (demo_frame 10 20 False [])] @ [Capture (demo_frame 77 88 True [1, 2])])
       (demo_conn, []) = Some (conn', log)"
    by blast
  from receiver_overwrites_counters [OF t, of demo_conn] r
  have "acknum conn' = Seq (demo_segment 77 88 True [1, 2])
      \<and> seqnum conn' = Ack (demo_segment 77 88 True [1, 2])"
    by blast
  then have "acknum conn' = 77 \<and> seqnum conn' = 88"
    by (simp add: demo_segment_def)
  with t r show ?thesis by blast
qed

subsection \<open>The link-layer template\<close>

lemma once_Do_fired: "once_done conn \<Longrightarrow> once_Do pkt conn = conn"
  by (simp add: once_Do_def)

lemma chan_send_link:
  "once_done (chan_send v conn) = once_done conn" "linkLayer (chan_send v conn) = linkLayer conn"
  by (simp_all add: chan_send_def)

lemma chan_recv_link:
  "chan_recv conn = Some (v, conn')
     \<Longrightarrow> once_done conn' = once_done conn \<and> linkLayer conn' = linkLayer conn"
  by (auto simp: chan_recv_def split: list.splits option.splits)

lemma WriteTo_link:
  "once_done (snd (WriteTo env conn p addr)) = once_done conn"
  "linkLayer (snd (WriteTo env conn p addr)) = linkLayer conn"
  by (simp_all add: WriteTo_def Let_def split: prod.splits option.splits)

lemma Close_link:
  "once_done (snd (Close conn)) = once_done conn" "linkLayer (snd (Close conn)) = linkLayer conn"
  by (simp_all add: Close_def split: prod.splits)

lemma SetDeadline_link:
  "once_done (snd (SetDeadline conn t)) = once_done conn"
  "linkLayer (snd (SetDeadline conn t)) = linkLayer conn"
  "once_done (snd (SetReadDeadline conn t)) = once_done conn"
  "linkLayer (snd (SetReadDeadline conn t)) = linkLayer conn"
  "once_done (snd (SetWriteDeadline conn t)) = once_done conn"
  "linkLayer (snd (SetWriteDeadline conn t)) = linkLayer conn"
  by (simp_all add: SetDeadline_def SetReadDeadline_def SetWriteDeadline_def split: prod.splits)

text \<open>Once the \<^verbatim>\<open>sync.Once\<close> has fired, no event changes the template.\<close>

lemma step_keeps_link:
  assumes "once_done conn" and "step ev (conn, log) = Some (conn', log')"
  shows "once_done conn' \<and> linkLayer conn' = linkLayer conn"
proof (cases ev)
  case (Capture pkt)
  with assms show ?thesis
    by (auto simp: receiver_body_def Let_def once_Do_fired chan_send_link
        split: option.splits sum.splits if_splits)
next
  case (Read p)
  with assms show ?thesis
    by (auto simp: ReadFrom_def Let_def dest: chan_recv_link split: option.splits prod.splits)
next
  case (Write env p addr)
  with assms show ?thesis by (auto simp: WriteTo_link)
next
  case CloseCall
  with assms show ?thesis by (auto simp: Close_link)
next
  case (Deadline t)
  with assms show ?thesis by (auto simp: SetDeadline_link)
next
  case (ReadDeadline t)
  with assms show ?thesis by (auto simp: SetDeadline_link)
next
  case (WriteDeadline t)
  with assms show ?thesis by (auto simp: SetDeadline_link)
qed

lemma run_keeps_link:
  "once_done conn \<Longrightarrow> run evs (conn, log) = Some (conn', log')
     \<Longrightarrow> once_done conn' \<and> linkLayer conn' = linkLayer conn"
proof (induction evs arbitrary: conn log)
  case Nil
  then show ?case by simp
next
  case (Cons ev evs)
  from Cons.prems obtain c l where st: "step ev (conn, log) = Some (c, l)"
    and r: "run evs (c, l) = Some (conn', log')"
    by (auto split: option.splits)
  from step_keeps_link [OF Cons.prems(1) st] have "once_done c" and "linkLayer c = linkLayer conn"
    by simp_all
  with Cons.IH [OF _ r] show ?case by simp
qed

lemma first_frame_link:
  assumes "\<not> once_done conn" and "linkLayer conn = None"
    and "step (Capture first) (conn, log) = Some (conn', log')"
  shows "once_done conn' \<and> linkLayer conn' =
      (case Layer_Ethernet first of
         Some ethLayer \<Rightarrow> Some (EthernetLayerOf \<lparr>SrcMAC = DstMAC ethLayer, DstMAC = SrcMAC ethLayer,
                                  EthernetType = EthernetType ethLayer\<rparr>)
       | None \<Rightarrow> (case Layer_Loopback first of
                    Some loopLayer \<Rightarrow> Some (LoopbackLayerOf \<lparr>Family = Family loopLayer\<rparr>)
                  | None \<Rightarrow> None))"
  using assms
  by (auto simp: receiver_body_def Let_def once_Do_def once_body_def chan_send_link
      split: option.splits sum.splits if_splits)

text \<open>
  Claim C3. The template comes from the first captured frame and from no other. On a
  connection as \<^verbatim>\<open>Dial\<close> makes it, after any interleaving that starts with the
  capture of the frame \<open>first\<close>: if \<open>first\<close> has an Ethernet layer, the template is an
  Ethernet layer with the two hardware addresses swapped and the same type; if it has
  none but has a loopback layer, the template is a loopback layer with the same family;
  if it has neither, there is no template, whatever frames follow.
\<close>

theorem link_template_from_first_frame:
  assumes "\<not> once_done conn" and "linkLayer conn = None"
    and "run (Capture first # evs) (conn, log) = Some (conn', log')"
  shows "linkLayer conn' =
      (case Layer_Ethernet first of
         Some ethLayer \<Rightarrow> Some (EthernetLayerOf \<lparr>SrcMAC = DstMAC ethLayer, DstMAC = SrcMAC ethLayer,
                                  EthernetType = EthernetType ethLayer\<rparr>)
       | None \<Rightarrow> (case Layer_Loopback first of
                    Some loopLayer \<Rightarrow> Some (LoopbackLayerOf \<lparr>Family = Family loopLayer\<rparr>)
                  | None \<Rightarrow> None))"
proof -
  from assms(3) obtain c l where st: "step (Capture first) (conn, log) = Some (c, l)"
    and r: "run evs (c, l) = Some (conn', log')"
    by (auto split: option.splits)
  from first_frame_link [OF assms(1,2) st] have d: "once_done c" and
    l: "linkLayer c = (case Layer_Ethernet first of
         Some ethLayer \<Rightarrow> Some (EthernetLayerOf \<lparr>SrcMAC = DstMAC ethLayer, DstMAC = SrcMAC ethLayer,
                                  EthernetType = EthernetType ethLayer\<rparr>)
       | None \<Rightarrow> (case Layer_Loopback first of
                    Some loopLayer \<Rightarrow> Some (LoopbackLayerOf \<lparr>Family = Family loopLayer\<rparr>)
                  | None \<Rightarrow> None))"
    by simp_all
  from run_keeps_link [OF d r] l show ?thesis by simp
qed

theorem link_template_from_first_frame_witness:
  "\<not> once_done demo_conn \<and> linkLayer demo_conn = None
   \<and> (\<exists>conn' log'.
         run (Capture (demo_frame 1 1 False []) # [Capture demo_loop_frame]) (demo_conn, [])
           = Some (conn', log')
         \<and> linkLayer conn' = Some (EthernetLayerOf
             \<lparr>SrcMAC = [2, 2, 2, 2, 2, 2], DstMAC = [1, 1, 1, 1, 1, 1], EthernetType = 2048\<rparr>))"
proof -
  have a: "\<not> once_done demo_conn" and b: "linkLayer demo_conn = None"
    by (simp_all add: demo_conn_def)
  have "\<exists>conn' log'.
          run (Capture (demo_frame 1 1 False []) # [Capture demo_loop_frame]) (demo_conn, [])
            = Some (conn', log')"
    by (simp add: demo_defs recv_defs)
  then obtain conn' log' where r:
    "run (Capture (demo_frame 1 1 False []) # [Capture demo_loop_frame]) (demo_conn, [])
       = Some (conn', log')"
    by blast
  from link_template_from_first_frame [OF a b r]
  have "linkLayer conn' = Some (EthernetLayerOf
            \<lparr>SrcMAC = [2, 2, 2, 2, 2, 2], DstMAC = [1, 1, 1, 1, 1, 1], EthernetType = 2048\<rparr>)"
    by (simp add: demo_frame_def demo_eth_def)
  with a b r show ?thesis by blast
qed

subsection \<open>The channel\<close>











subsection \<open>ReadFrom\<close>

text \<open>
  Claim C9. With a payload at the head of the channel and any buffer \<open>p\<close>,
  \<^verbatim>\<open>ReadFrom\<close> returns \<open>n = min(len(p), len(payload))\<close>, the buffer holds the first
  \<open>n\<close> bytes of the payload followed by what it held beyond them, the address is the
  remote endpoint of the TCP socket and the error is nil; the payload has left the
  channel whole, so the bytes that did not fit are gone. No call of \<^verbatim>\<open>ReadFrom\<close>
  that returns reports an error.
\<close>

theorem ReadFrom_result:
  assumes "chPacket conn = payload # rest"
  shows "(\<exists>r conn'. ReadFrom conn p = Some (r, conn')
            \<and> rd_n r = int (min (length p) (length payload))
            \<and> rd_buf r = take (min (length p) (length payload)) payload
                          @ drop (min (length p) (length payload)) p
            \<and> rd_addr r = TCPAddrOf (raddr (tcpconn conn))
            \<and> rd_err r = None
            \<and> in_channel conn' = rest @ (case sending conn of None \<Rightarrow> [] | Some v \<Rightarrow> [v]))
       \<and> (\<forall>c q r c'. ReadFrom c q = Some (r, c') \<longrightarrow> rd_err r = None)"
proof -
  have never: "rd_err r = None" if "ReadFrom c q = Some (r, c')" for c q r c'
    using that by (auto simp: ReadFrom_def Let_def split: option.splits prod.splits)
  have "\<exists>r conn'. ReadFrom conn p = Some (r, conn')
            \<and> rd_n r = int (min (length p) (length payload))
            \<and> rd_buf r = take (min (length p) (length payload)) payload
                          @ drop (min (length p) (length payload)) p
            \<and> rd_addr r = TCPAddrOf (raddr (tcpconn conn))
            \<and> rd_err r = None
            \<and> in_channel conn' = rest @ (case sending conn of None \<Rightarrow> [] | Some v \<Rightarrow> [v])"
    using assms
    by (cases "sending conn")
      (simp_all add: ReadFrom_def chan_recv_def copy_def Let_def TCPConn_RemoteAddr_def in_channel_def)
  with never show ?thesis by blast
qed

theorem ReadFrom_result_witness:
  "chPacket demo_queued = [1, 2, 3, 4, 5] # []
   \<and> (\<exists>r conn'. ReadFrom demo_queued [0, 0, 0] = Some (r, conn')
        \<and> rd_n r = 3 \<and> rd_buf r = [1, 2, 3] \<and> rd_err r = None \<and> in_channel conn' = []
        \<and> rd_addr r = TCPAddrOf \<lparr>IP = [10, 0, 0, 9], Port = 443\<rparr>)"
proof -
  have a: "chPacket demo_queued = [1, 2, 3, 4, 5] # []"
    by (simp add: demo_queued_def)
  have s: "sending demo_queued = None"
    and t: "raddr (tcpconn demo_queued) = \<lparr>IP = [10, 0, 0, 9], Port = 443\<rparr>"
    by (simp_all add: demo_defs)
  from ReadFrom_result [OF a, of "[0, 0, 0]"] s t
  have "\<exists>r conn'. ReadFrom demo_queued [0, 0, 0] = Some (r, conn')
        \<and> rd_n r = 3 \<and> rd_buf r = [1, 2, 3] \<and> rd_err r = None \<and> in_channel conn' = []
        \<and> rd_addr r = TCPAddrOf \<lparr>IP = [10, 0, 0, 9], Port = 443\<rparr>"
    by auto
  with a show ?thesis by blast
qed

subsection \<open>The interface lookup of Dial\<close>







subsection \<open>Deadlines and Close\<close>

text \<open>
  The deadlines and \<^verbatim>\<open>Close\<close> act on the two sockets; \<^verbatim>\<open>ReadFrom\<close> waits on the
  channel and \<^verbatim>\<open>WriteTo\<close> sends through the capture handle, and neither looks at a
  socket's deadline or at whether it is closed.
\<close>

lemma ReadFrom_ignores_sockets:
  "ReadFrom (conn\<lparr>ipconn := ic, tcpconn := (tcpconn conn)\<lparr>tcp_closed := b\<rparr>\<rparr>) p =
     map_option (\<lambda>(r, c). (r, c\<lparr>ipconn := ic, tcpconn := (tcpconn c)\<lparr>tcp_closed := b\<rparr>\<rparr>))
       (ReadFrom conn p)"
  by (cases "chPacket conn"; cases "sending conn")
    (simp_all add: read_defs Let_def)

lemma WriteTo_ignores_sockets:
  "fst (WriteTo env (conn\<lparr>ipconn := ic, tcpconn := (tcpconn conn)\<lparr>tcp_closed := b\<rparr>\<rparr>) p addr) =
     fst (WriteTo env conn p addr)"
  by (simp add: WriteTo_def WriteTo_network_def WriteTo_tcp_def Let_def split: prod.splits option.splits)

lemma ReadFrom_after_deadline:
  assumes "chPacket conn = payload # rest"
  shows "\<exists>r conn'. ReadFrom (snd (SetDeadline conn t)) p = Some (r, conn')
           \<and> rd_err r = None \<and> rd_n r = int (min (length p) (length payload))"
  using assms
  by (cases "sending conn")
    (simp_all add: SetDeadline_def read_defs Let_def split: prod.splits)

lemma ReadFrom_after_Close:
  assumes "chPacket conn = payload # rest"
  shows "\<exists>r conn'. ReadFrom (snd (Close conn)) p = Some (r, conn')
           \<and> rd_err r = None \<and> rd_n r = int (min (length p) (length payload))"
  using assms
  by (cases "sending conn")
    (simp_all add: Close_def read_defs Let_def split: prod.splits)

lemma ReadFrom_stays_suspended:
  assumes "chPacket conn = []"
  shows "ReadFrom (snd (SetDeadline conn t)) p = None \<and> ReadFrom (snd (Close conn)) p = None"
  using assms
  by (simp add: SetDeadline_def Close_def read_defs split: prod.splits)

text \<open>
  Claim C6 asks that after a deadline in the past has been set, the next call of
  \<^verbatim>\<open>ReadFrom\<close> or \<^verbatim>\<open>WriteTo\<close> fails at once with a timeout. Here the deadline is the
  instant 1, set without error on a connection with one payload waiting: the next
  \<^verbatim>\<open>ReadFrom\<close> returns 3 bytes and no error and takes the payload, the next
  \<^verbatim>\<open>WriteTo\<close> returns no error and advances \<^verbatim>\<open>seqnum\<close>; and with an empty channel
  \<^verbatim>\<open>ReadFrom\<close> stays suspended.
\<close>

theorem past_deadline_ignored:
  "fst (SetDeadline demo_queued 1) = None
   \<and> readDeadline (ipconn (snd (SetDeadline demo_queued 1))) = 1
   \<and> writeDeadline (ipconn (snd (SetDeadline demo_queued 1))) = 1
   \<and> (\<exists>r conn'. ReadFrom (snd (SetDeadline demo_queued 1)) [0, 0, 0] = Some (r, conn')
         \<and> rd_err r = None \<and> rd_n r = 3 \<and> chPacket conn' = [])
   \<and> wr_err (fst (WriteTo env_ok (snd (SetDeadline demo_queued 1)) [7, 8, 9] NilAddr)) = None
   \<and> seqnum (snd (WriteTo env_ok (snd (SetDeadline demo_queued 1)) [7, 8, 9] NilAddr)) = 1003
   \<and> ReadFrom (snd (SetDeadline demo_linked 1)) [0, 0, 0] = None"
  by (simp add: SetDeadline_def IPConn_SetDeadline_def demo_defs read_defs WriteTo_def env_ok_def
      demo_serialize_def Let_def)

text \<open>
  Claim C7 asks that after \<^verbatim>\<open>Close\<close> every blocked or later call of \<^verbatim>\<open>ReadFrom\<close> or
  \<^verbatim>\<open>WriteTo\<close> returns an error. \<^verbatim>\<open>Close\<close> does close both sockets, and here it
  returns no error; yet after it a \<^verbatim>\<open>ReadFrom\<close> with a payload waiting returns 3 bytes
  and no error, a \<^verbatim>\<open>WriteTo\<close> returns 3 and no error, and a \<^verbatim>\<open>ReadFrom\<close> on an empty
  channel stays suspended.
\<close>

theorem Close_leaves_calls_unaffected:
  "fst (Close demo_queued) = None
   \<and> ip_closed (ipconn (snd (Close demo_queued))) \<and> tcp_closed (tcpconn (snd (Close demo_queued)))
   \<and> (\<exists>r conn'. ReadFrom (snd (Close demo_queued)) [0, 0, 0] = Some (r, conn')
         \<and> rd_err r = None \<and> rd_n r = 3)
   \<and> wr_err (fst (WriteTo env_ok (snd (Close demo_queued)) [7, 8, 9] NilAddr)) = None
   \<and> wr_n (fst (WriteTo env_ok (snd (Close demo_queued)) [7, 8, 9] NilAddr)) = 3
   \<and> ReadFrom (snd (Close demo_linked)) [0, 0, 0] = None"
  by (simp add: Close_def IPConn_Close_def TCPConn_Close_def demo_defs read_defs WriteTo_def env_ok_def
      demo_serialize_def Let_def)

end
